theory Spec2Isabelle
  imports Complex_Main "HOL-Library.Sublist"
begin

section \<open>Contabilidad en Python: ledger entries and the bank statement reader\<close>

text \<open>
  A shallow embedding of the three modules of the repository:
  \<^verbatim>\<open>core/repositorio.py\<close> (\<open>JsonStorage\<close>), \<^verbatim>\<open>core/libro_diario.py\<close>
  (\<open>Entry\<close>, \<open>serialize\<close>, \<open>deserialize\<close>, \<open>add_entry\<close>, \<open>list_entries\<close>) and
  \<^verbatim>\<open>cli/main.py\<close> (the bank CSV readers, the date and amount parsers and the
  \<open>bank-month\<close> and \<open>bank-add\<close> branches of \<open>main\<close>).

  Conventions.
  \<^item> A Python \<open>str\<close> is a \<open>string\<close>; a \<open>char\<close> stands for the code point of the same
    number, so the strings of the model are the Python strings over U+0000 .. U+00FF.
  \<^item> A Python \<open>float\<close> is a \<open>pyfloat\<close>: the exact rational value that a finite float
    stands for, or one of the three special values. The rounding of a decimal numeral to
    the nearest double and the overflow to infinity are not modelled.
  \<^item> An exception is a value of the type \<open>error\<close>; a function that can raise returns
    \<open>error + 'a\<close> with \<open>Inl\<close> for the exception.
  \<^item> Python names that begin with an underscore lose it (\<open>_parse_euro_amount\<close> is
    \<open>parse_euro_amount\<close>), since an Isabelle name begins with a letter.
\<close>

subsection \<open>Exceptions\<close>

text \<open>
  The exception classes that the modelled code can raise. \<open>IndexError\<close> carries its
  message, which the reader builds from the requested index and the number of rows.
\<close>

datatype error =
    ValueError
  | TypeError
  | KeyError
  | OverflowError
  | OSError
  | IndexError string

text \<open>Sequencing of two computations, the second one skipped when the first raises.\<close>

definition bind_err :: "error + 'a \<Rightarrow> ('a \<Rightarrow> error + 'b) \<Rightarrow> error + 'b" where
  "bind_err m f = (case m of Inl e \<Rightarrow> Inl e | Inr x \<Rightarrow> f x)"

subsection \<open>Decimal digits\<close>

text \<open>
  \<open>of_char c\<close> is the code point of \<open>c\<close>; the decimal digits are the code points 48 to
  57.
\<close>

definition is_digit :: "char \<Rightarrow> bool" where
  "is_digit c = (48 \<le> (of_char c :: nat) \<and> (of_char c :: nat) \<le> 57)"

definition digit_val :: "char \<Rightarrow> nat" where
  "digit_val c = of_char c - 48"

definition digit_char :: "nat \<Rightarrow> char" where
  "digit_char d = ''0123456789'' ! d"

text \<open>The number a string of decimal digits denotes, most significant digit first.\<close>

definition nat_of_digits :: "string \<Rightarrow> nat" where
  "nat_of_digits s = foldl (\<lambda>n c. 10 * n + digit_val c) 0 s"

text \<open>\<open>str(n)\<close> for a natural number and for an integer.\<close>

function str_nat :: "nat \<Rightarrow> string" where
  "str_nat n = (if n < 10 then [digit_char n] else str_nat (n div 10) @ [digit_char (n mod 10)])"
  by pat_completeness auto
termination
  by (relation "measure id") auto

definition str_int :: "int \<Rightarrow> string" where
  "str_int i = (if i < 0 then CHR ''-'' # str_nat (nat (- i)) else str_nat (nat i))"

text \<open>The format \<open>%0wd\<close> of a natural number: zeros on the left up to the width \<open>w\<close>.\<close>

definition zfill :: "nat \<Rightarrow> nat \<Rightarrow> string" where
  "zfill w n = replicate (w - length (str_nat n)) (CHR ''0'') @ str_nat n"

subsection \<open>Strings\<close>

text \<open>
  \<open>str.isspace\<close> on one character: the white space code points below 256.
\<close>

definition is_space :: "char \<Rightarrow> bool" where
  "is_space c = ((of_char c :: nat) \<in> {9, 10, 11, 12, 13, 28, 29, 30, 31, 32, 133, 160})"

text \<open>\<open>s.strip()\<close>\<close>

definition strip :: "string \<Rightarrow> string" where
  "strip s = rev (dropWhile is_space (rev (dropWhile is_space s)))"

text \<open>
  \<open>s.replace(old, new)\<close>: the occurrences of \<open>old\<close> are found from left to right and do
  not overlap. With an empty \<open>old\<close>, \<open>new\<close> goes in front of every character and at the
  end.
\<close>

function replace_scan :: "string \<Rightarrow> string \<Rightarrow> string \<Rightarrow> string" where
  "replace_scan old new [] = []"
| "replace_scan old new (c # cs) =
     (if old \<noteq> [] \<and> prefix old (c # cs)
      then new @ replace_scan old new (drop (length old) (c # cs))
      else c # replace_scan old new cs)"
  by pat_completeness auto
termination
  by (relation "measure (\<lambda>(old, new, s). length s)") auto

definition replace :: "string \<Rightarrow> string \<Rightarrow> string \<Rightarrow> string" where
  "replace s old new =
     (if old = [] then new @ concat (map (\<lambda>c. c # new) s) else replace_scan old new s)"

subsection \<open>Floats\<close>

datatype pyfloat = Finite rat | PosInf | NegInf | NaN

text \<open>\<open>abs(x)\<close>, \<open>x < y\<close> and \<open>x + y\<close> on floats.\<close>

definition fabs :: "pyfloat \<Rightarrow> pyfloat" where
  "fabs x = (case x of Finite q \<Rightarrow> Finite (abs q) | PosInf \<Rightarrow> PosInf
             | NegInf \<Rightarrow> PosInf | NaN \<Rightarrow> NaN)"

fun flt :: "pyfloat \<Rightarrow> pyfloat \<Rightarrow> bool" where
  "flt (Finite a) (Finite b) = (a < b)"
| "flt (Finite a) PosInf = True"
| "flt NegInf (Finite b) = True"
| "flt NegInf PosInf = True"
| "flt _ _ = False"

fun fadd :: "pyfloat \<Rightarrow> pyfloat \<Rightarrow> pyfloat" where
  "fadd (Finite a) (Finite b) = Finite (a + b)"
| "fadd NaN _ = NaN"
| "fadd _ NaN = NaN"
| "fadd PosInf NegInf = NaN"
| "fadd NegInf PosInf = NaN"
| "fadd PosInf _ = PosInf"
| "fadd _ PosInf = PosInf"
| "fadd NegInf _ = NegInf"
| "fadd _ NegInf = NegInf"

subsection \<open>The conversion \<open>float(s)\<close> of a string\<close>

text \<open>
  The model follows CPython's \<open>PyFloat_FromString\<close>. First the string is made ASCII
  (\<open>_PyUnicode_TransformDecimalAndSpaceToASCII\<close>): an ASCII string is left as it is;
  otherwise every code point from 127 on becomes a blank when it is white space, and a
  question mark that ends the string when it is not (no code point from 127 to 255 is a
  decimal digit).
\<close>

fun to_ascii :: "string \<Rightarrow> string" where
  "to_ascii [] = []"
| "to_ascii (c # cs) =
     (if (of_char c :: nat) < 127 then c # to_ascii cs
      else if is_space c then CHR '' '' # to_ascii cs
      else ''?'')"

definition transform_decimal_and_space :: "string \<Rightarrow> string" where
  "transform_decimal_and_space s =
     (if list_all (\<lambda>c. (of_char c :: nat) < 128) s then s else to_ascii s)"

text \<open>
  \<open>Py_ISSPACE\<close>: the white space that \<open>float\<close> strips at both ends. (The C loop at
  the end of the string keeps one character; after the loop at the start that character
  is no white space, so the loop is \<open>dropWhile\<close> on the reversed string.)
\<close>

definition c_isspace :: "char \<Rightarrow> bool" where
  "c_isspace c = ((of_char c :: nat) \<in> {9, 10, 11, 12, 13, 32})"

text \<open>
  \<open>_Py_string_to_number_with_underscores\<close>: an underscore must stand between two
  digits. The result is the string without its underscores, or \<open>None\<close> for the error.
  \<open>prev\<close> is the character before, the null character at the start.
\<close>

fun check_underscores :: "char \<Rightarrow> string \<Rightarrow> string option" where
  "check_underscores prev [] = (if prev = CHR ''_'' then None else Some [])"
| "check_underscores prev (c # cs) =
     (if c = CHR ''_''
      then (if is_digit prev then check_underscores c cs else None)
      else (if prev = CHR ''_'' \<and> \<not> is_digit c then None
            else map_option ((#) c) (check_underscores c cs)))"

text \<open>An optional sign: whether it is a minus, and the text after it.\<close>

definition read_sign :: "string \<Rightarrow> bool \<times> string" where
  "read_sign s =
     (case s of
        [] \<Rightarrow> (False, [])
      | c # cs \<Rightarrow>
          if c = CHR ''-'' then (True, cs) else if c = CHR ''+'' then (False, cs) else (False, s))"

definition pow10 :: "int \<Rightarrow> rat" where
  "pow10 k = (if 0 \<le> k then 10 ^ nat k else 1 / 10 ^ nat (- k))"

text \<open>
  The exponent part: \<open>e\<close> or \<open>E\<close>, an optional sign and at least one digit. Without a
  digit the \<open>e\<close> is not part of the number and nothing is read.
\<close>

definition read_exponent :: "string \<Rightarrow> int \<times> string" where
  "read_exponent s =
     (case s of
        [] \<Rightarrow> (0, s)
      | c # cs \<Rightarrow>
          if c = CHR ''e'' \<or> c = CHR ''E''
          then (let (eneg, r) = read_sign cs;
                    ds = takeWhile is_digit r
                in if ds = [] then (0, s)
                   else ((if eneg then - int (nat_of_digits ds) else int (nat_of_digits ds)),
                         dropWhile is_digit r))
          else (0, s))"

text \<open>
  \<open>_Py_dg_strtod\<close>: sign, digits, an optional point with more digits, an optional
  exponent; at least one digit before or after the point. The result is the value read
  and the text that is left, or \<open>None\<close> when nothing was read.
\<close>

definition dg_strtod :: "string \<Rightarrow> (pyfloat \<times> string) option" where
  "dg_strtod s =
     (let (neg, s1) = read_sign s;
          ipart = takeWhile is_digit s1;
          s2 = dropWhile is_digit s1;
          (fpart, s3) = (case s2 of
                           [] \<Rightarrow> ([], s2)
                         | c # cs \<Rightarrow> if c = CHR ''.''
                                     then (takeWhile is_digit cs, dropWhile is_digit cs)
                                     else ([], s2))
      in if ipart = [] \<and> fpart = [] then None
         else (let (e, s4) = read_exponent s3;
                   q = of_nat (nat_of_digits (ipart @ fpart)) * pow10 (e - int (length fpart))
               in Some (Finite (if neg then - q else q), s4)))"

text \<open>
  \<open>_Py_parse_inf_or_nan\<close>: \<open>inf\<close>, \<open>infinity\<close> or \<open>nan\<close> after an optional sign,
  in either case of letter. \<open>ci_eq c l\<close> compares \<open>c\<close> with the lower case letter \<open>l\<close>.
\<close>

definition ci_eq :: "char \<Rightarrow> char \<Rightarrow> bool" where
  "ci_eq c l = (c = l \<or> (65 \<le> (of_char c :: nat) \<and> (of_char c :: nat) \<le> 90
                           \<and> (of_char c :: nat) + 32 = of_char l))"

fun ci_match :: "string \<Rightarrow> string \<Rightarrow> bool" where
  "ci_match s [] = True"
| "ci_match [] (l # ls) = False"
| "ci_match (c # cs) (l # ls) = (ci_eq c l \<and> ci_match cs ls)"

definition parse_inf_or_nan :: "string \<Rightarrow> (pyfloat \<times> string) option" where
  "parse_inf_or_nan p =
     (let (neg, s) = read_sign p
      in if ci_match s ''inf''
         then (let s' = drop 3 s;
                   s'' = (if ci_match s' ''inity'' then drop 5 s' else s')
               in Some (if neg then NegInf else PosInf, s''))
         else if ci_match s ''nan'' then Some (NaN, drop 3 s)
         else None)"

text \<open>
  \<open>PyOS_string_to_double\<close> as \<open>float_from_string_inner\<close> calls it: the number is read
  by \<open>dg_strtod\<close>, or by \<open>parse_inf_or_nan\<close> when that reads nothing, and the whole
  string must have been read.
\<close>

definition string_to_double :: "string \<Rightarrow> error + pyfloat" where
  "string_to_double s =
     (case (case dg_strtod s of None \<Rightarrow> parse_inf_or_nan s | Some r \<Rightarrow> Some r) of
        None \<Rightarrow> Inl ValueError
      | Some (x, rest) \<Rightarrow> if rest = [] then Inr x else Inl ValueError)"

text \<open>\<open>float(v)\<close> for a string \<open>v\<close>.\<close>

definition py_float :: "string \<Rightarrow> error + pyfloat" where
  "py_float v =
     (let s = transform_decimal_and_space v;
          s = dropWhile c_isspace s;
          s = rev (dropWhile c_isspace (rev s))
      in if CHR ''_'' \<in> set s
         then (case check_underscores (CHR 0x00) s of
                 None \<Rightarrow> Inl ValueError
               | Some dup \<Rightarrow> string_to_double dup)
         else string_to_double s)"

subsection \<open>The amount parser\<close>

text \<open>
  \<open>_parse_euro_amount(s)\<close>. The \<open>except ValueError\<close> clause catches that exception
  only; any other one would leave the function.
\<close>

definition parse_euro_amount :: "string \<Rightarrow> error + pyfloat" where
  "parse_euro_amount s =
     (let s = replace (replace (strip s) ''.'' '''') '','' ''.''
      in case py_float s of
           Inr x \<Rightarrow> Inr x
         | Inl ValueError \<Rightarrow> Inr (Finite 0)
         | Inl e \<Rightarrow> Inl e)"

text \<open>
  The amount rule in the words of section 4.4 of the specification: strip the white
  space, remove every point, turn every comma into a point, parse the result as a
  number, and take \<open>0.0\<close> when that fails.
\<close>

definition amount_rule_spec :: "string \<Rightarrow> pyfloat" where
  "amount_rule_spec s =
     (case py_float (map (\<lambda>c. if c = CHR '','' then CHR ''.'' else c)
                       (filter (\<lambda>c. c \<noteq> CHR ''.'') (strip s))) of
        Inr x \<Rightarrow> x
      | Inl e \<Rightarrow> Finite 0)"

subsection \<open>Calendar dates\<close>

text \<open>
  A \<open>datetime.date\<close>. The constructor \<open>date(year, month, day)\<close> raises \<open>ValueError\<close>
  unless the year is between 1 and 9999 and the day exists in the month.
\<close>

record date =
  year :: nat
  month :: nat
  day :: nat

definition is_leap :: "nat \<Rightarrow> bool" where
  "is_leap y = (y mod 4 = 0 \<and> (y mod 100 \<noteq> 0 \<or> y mod 400 = 0))"

definition days_in_month :: "nat \<Rightarrow> nat \<Rightarrow> nat" where
  "days_in_month y m =
     (if m = 2 then (if is_leap y then 29 else 28)
      else if m = 4 \<or> m = 6 \<or> m = 9 \<or> m = 11 then 30
      else 31)"

definition valid_ymd :: "nat \<Rightarrow> nat \<Rightarrow> nat \<Rightarrow> bool" where
  "valid_ymd y m d =
     (1 \<le> y \<and> y \<le> 9999 \<and> 1 \<le> m \<and> m \<le> 12 \<and> 1 \<le> d \<and> d \<le> days_in_month y m)"

definition valid_date :: "date \<Rightarrow> bool" where
  "valid_date dt = valid_ymd (year dt) (month dt) (day dt)"

definition new_date :: "nat \<Rightarrow> nat \<Rightarrow> nat \<Rightarrow> error + date" where
  "new_date y m d =
     (if valid_ymd y m d then Inr \<lparr>year = y, month = m, day = d\<rparr> else Inl ValueError)"

text \<open>\<open>d.isoformat()\<close>, the format \<open>%04d-%02d-%02d\<close>.\<close>

definition isoformat :: "date \<Rightarrow> string" where
  "isoformat dt = zfill 4 (year dt) @ ''-'' @ zfill 2 (month dt) @ ''-'' @ zfill 2 (day dt)"

text \<open>
  \<open>date.fromisoformat(s)\<close> on a string, for the form \<open>YYYY-MM-DD\<close> that every version
  of the library reads: ten characters, digits around two hyphens. The model raises
  \<open>ValueError\<close> on any other string, as the versions before 3.11 do (later versions
  also read the basic and the week forms).
\<close>

definition date_fromisoformat :: "string \<Rightarrow> error + date" where
  "date_fromisoformat s =
     (if length s = 10
         \<and> list_all is_digit (take 4 s) \<and> s ! 4 = CHR ''-''
         \<and> list_all is_digit (take 2 (drop 5 s)) \<and> s ! 7 = CHR ''-''
         \<and> list_all is_digit (drop 8 s)
      then new_date (nat_of_digits (take 4 s)) (nat_of_digits (take 2 (drop 5 s)))
             (nat_of_digits (drop 8 s))
      else Inl ValueError)"

subsection \<open>\<open>datetime.strptime\<close> with the format \<open>%d/%m/%Y\<close>\<close>

text \<open>
  \<open>strptime\<close> turns the format into a regular expression and matches it at the start
  of the string with a backtracking matcher. \<open>rmatch r s\<close> lists, in the order the
  matcher tries them, the ways in which \<open>r\<close> matches a prefix of \<open>s\<close>: the text matched
  and the text left.
\<close>

datatype regex = Lit char | Range char char | Seq regex regex | Alt regex regex

fun rmatch :: "regex \<Rightarrow> string \<Rightarrow> (string \<times> string) list" where
  "rmatch (Lit a) s = (case s of [] \<Rightarrow> [] | c # cs \<Rightarrow> if c = a then [([c], cs)] else [])"
| "rmatch (Range lo hi) s =
     (case s of
        [] \<Rightarrow> []
      | c # cs \<Rightarrow>
          if (of_char lo :: nat) \<le> of_char c \<and> (of_char c :: nat) \<le> of_char hi
          then [([c], cs)] else [])"
| "rmatch (Seq p q) s =
     concat (map (\<lambda>(t1, r1). map (\<lambda>(t2, r2). (t1 @ t2, r2)) (rmatch q r1)) (rmatch p s))"
| "rmatch (Alt p q) s = rmatch p s @ rmatch q s"


text \<open>
  The expressions of the directives, from \<open>_strptime.TimeRE\<close>:
  \<open>%d\<close> is \<^verbatim>\<open>3[0-1]|[1-2]\d|0[1-9]|[1-9]| [1-9]\<close>,
  \<open>%m\<close> is \<^verbatim>\<open>1[0-2]|0[1-9]|[1-9]\<close> and \<open>%Y\<close> is \<^verbatim>\<open>\d\d\d\d\<close>.
  Below code point 256 the class \<^verbatim>\<open>\d\<close> is the range from 0 to 9.
\<close>

definition re_digit :: regex where
  "re_digit = Range (CHR ''0'') (CHR ''9'')"

definition re_d :: regex where
  "re_d =
     Alt (Seq (Lit (CHR ''3'')) (Range (CHR ''0'') (CHR ''1'')))
    (Alt (Seq (Range (CHR ''1'') (CHR ''2'')) re_digit)
    (Alt (Seq (Lit (CHR ''0'')) (Range (CHR ''1'') (CHR ''9'')))
    (Alt (Range (CHR ''1'') (CHR ''9''))
         (Seq (Lit (CHR '' '')) (Range (CHR ''1'') (CHR ''9''))))))"

definition re_m :: regex where
  "re_m =
     Alt (Seq (Lit (CHR ''1'')) (Range (CHR ''0'') (CHR ''2'')))
    (Alt (Seq (Lit (CHR ''0'')) (Range (CHR ''1'') (CHR ''9'')))
         (Range (CHR ''1'') (CHR ''9'')))"

definition re_Y :: regex where
  "re_Y = Seq re_digit (Seq re_digit (Seq re_digit re_digit))"

text \<open>
  The matches of the whole expression \<^verbatim>\<open>(?P<d>..)/(?P<m>..)/(?P<Y>..)\<close>: the texts
  of the three groups and the text left after the match.
\<close>

definition dmY_matches :: "string \<Rightarrow> ((string \<times> string \<times> string) \<times> string) list" where
  "dmY_matches s =
     List.bind (rmatch re_d s) (\<lambda>(d, r1).
     List.bind (rmatch (Lit (CHR ''/'')) r1) (\<lambda>(_, r2).
     List.bind (rmatch re_m r2) (\<lambda>(m, r3).
     List.bind (rmatch (Lit (CHR ''/'')) r3) (\<lambda>(_, r4).
     map (\<lambda>(y, r5). ((d, m, y), r5)) (rmatch re_Y r4)))))"

text \<open>\<open>int(t)\<close> for the text of a group: digits, after a blank in one form of the day.\<close>

definition group_int :: "string \<Rightarrow> nat" where
  "group_int t = nat_of_digits (dropWhile is_space t)"

text \<open>
  \<open>datetime.strptime(s, "%d/%m/%Y").date()\<close>. The first match counts; when there is
  none the string does not match the format, when it leaves text "unconverted data
  remains", and the date is built by the constructor. All are \<open>ValueError\<close>.
\<close>

definition strptime_dmY :: "string \<Rightarrow> error + date" where
  "strptime_dmY s =
     (case dmY_matches s of
        [] \<Rightarrow> Inl ValueError
      | ((d, m, y), rest) # _ \<Rightarrow>
          if rest \<noteq> [] then Inl ValueError
          else new_date (group_int y) (group_int m) (group_int d))"

text \<open>\<open>_parse_ddmmyyyy(s)\<close>\<close>

definition parse_ddmmyyyy :: "string \<Rightarrow> error + date" where
  "parse_ddmmyyyy s = strptime_dmY (strip s)"






subsection \<open>Dictionaries of strings\<close>

text \<open>
  A row of the bank statement is a Python \<open>dict\<close> from column name to cell text. It is
  an association list in insertion order: storing under a key that is present replaces
  the value where it stands, storing under a new key appends.
\<close>

type_synonym row = "(string \<times> string) list"

fun dict_set :: "row \<Rightarrow> string \<Rightarrow> string \<Rightarrow> row" where
  "dict_set [] k v = [(k, v)]"
| "dict_set ((k', v') # d) k v = (if k' = k then (k, v) # d else (k', v') # dict_set d k v)"

text \<open>\<open>d.get(k, dflt)\<close>\<close>

definition dict_get :: "row \<Rightarrow> string \<Rightarrow> string \<Rightarrow> string" where
  "dict_get d k dflt = (case map_of d k of Some v \<Rightarrow> v | None \<Rightarrow> dflt)"

text \<open>\<open>dict(zip(ks, vs))\<close>: the pairs are stored from left to right.\<close>

definition dict_zip :: "string list \<Rightarrow> string list \<Rightarrow> row" where
  "dict_zip ks vs = foldl (\<lambda>d (k, v). dict_set d k v) [] (zip ks vs)"

subsection \<open>The bank statement reader\<close>

text \<open>
  \<open>csv.reader(f, delimiter=';')\<close> is an iterator of records, each a list of fields. The
  model takes the file as the list of records that the iterator yields from it (a blank
  line yields the record \<open>[]\<close>, an empty file yields no record). \<open>None\<close> stands for a
  path that \<open>open\<close> cannot read.
\<close>

type_synonym csv_file = "string list list"

text \<open>The slice \<open>xs[-5:]\<close>.\<close>

definition last5 :: "'a list \<Rightarrow> 'a list" where
  "last5 xs = drop (length xs - 5) xs"

text \<open>
  The loop \<open>for r in reader\<close> of both readers, with the list \<open>rows\<close> it appends to.
\<close>

fun collect_rows :: "string list \<Rightarrow> csv_file \<Rightarrow> row list \<Rightarrow> row list" where
  "collect_rows headers [] rows = rows"
| "collect_rows headers (r # rs) rows =
     (if r = [] then collect_rows headers rs rows
      else (let data = last5 r in
            if length data \<noteq> 5 then collect_rows headers rs rows
            else collect_rows headers rs (rows @ [dict_zip headers data])))"

text \<open>The message of the \<open>IndexError\<close> of \<open>_read_bank_csv_row\<close>.\<close>

definition index_message :: "int \<Rightarrow> nat \<Rightarrow> string" where
  "index_message idx n_rows =
     CHR 0xCD # ''ndice fuera de rango: '' @ str_int idx @ ''. Total filas: '' @ str_nat n_rows"

text \<open>
  \<open>_read_bank_csv_row(path, idx_one_based)\<close>. \<open>next(reader, None)\<close> is \<open>None\<close> on an
  empty file, which raises \<open>ValueError("CSV vacio")\<close>; a header is kept whatever it holds.
\<close>

definition read_bank_csv_row :: "csv_file option \<Rightarrow> int \<Rightarrow> error + row" where
  "read_bank_csv_row file idx_one_based =
     (case file of
        None \<Rightarrow> Inl OSError
      | Some [] \<Rightarrow> Inl ValueError
      | Some (header # reader) \<Rightarrow>
          (let headers = last5 header;
               rows = collect_rows headers reader [];
               real_index = idx_one_based - 1
           in if real_index < 0 \<or> real_index \<ge> int (length rows)
              then Inl (IndexError (index_message idx_one_based (length rows)))
              else Inr (rows ! nat real_index)))"

text \<open>
  \<open>_iter_bank_csv_rows(path)\<close>. \<open>if not header: return rows\<close> returns the empty list
  both on an empty file (\<open>header\<close> is \<open>None\<close>) and on a blank first line (\<open>header\<close> is
  \<open>[]\<close>).
\<close>

definition iter_bank_csv_rows :: "csv_file option \<Rightarrow> error + row list" where
  "iter_bank_csv_rows file =
     (case file of
        None \<Rightarrow> Inl OSError
      | Some [] \<Rightarrow> Inr []
      | Some (header # reader) \<Rightarrow>
          (if header = [] then Inr []
           else Inr (collect_rows (last5 header) reader [])))"

text \<open>
  The rows of a statement as section 4.4 of the specification words them: a line with no
  field is skipped, the rightmost five fields of a line are kept, a line that does not
  give five is skipped, and the kept values are paired with the retained header names
  position by position.
\<close>

definition reader_rows_spec :: "string list \<Rightarrow> csv_file \<Rightarrow> row list" where
  "reader_rows_spec header lines =
     map (\<lambda>fields. zip (last5 header) (last5 fields))
       (filter (\<lambda>fields. fields \<noteq> [] \<and> length (last5 fields) = 5) lines)"

text \<open>
  The data rows of a file with the given header line, for any header: the lines of at
  least five fields, each turned into the dictionary that the readers build.
\<close>

definition statement_rows :: "string list \<Rightarrow> csv_file \<Rightarrow> row list" where
  "statement_rows header lines =
     map (\<lambda>fields. dict_zip (last5 header) (last5 fields))
       (filter (\<lambda>fields. 5 \<le> length fields) lines)"

subsection \<open>The branch \<open>bank-month\<close> of \<open>main\<close>\<close>







definition fsum :: "pyfloat list \<Rightarrow> pyfloat" where
  "fsum xs = foldl fadd (Finite 0) xs"




subsection \<open>The branch \<open>bank-add\<close> of \<open>main\<close>: the suggested entry\<close>

text \<open>
  Step 3 of the branch, from the row read to the four suggested values. \<open>today\<close> is
  \<open>date.today()\<close>, taken when the date of the row cannot be read.
\<close>

record suggestion =
  concepto_sug :: string
  fecha_sug :: string
  debe_sug :: pyfloat
  haber_sug :: pyfloat

definition bank_add_suggest :: "row \<Rightarrow> string \<Rightarrow> date \<Rightarrow> error + suggestion" where
  "bank_add_suggest row fecha_col today =
     (let concepto = strip (dict_get row ''Concepto'' '''');
          fecha_txt = strip (dict_get row fecha_col '''');
          fecha = (case parse_ddmmyyyy fecha_txt of
                     Inr d \<Rightarrow> isoformat d
                   | Inl e \<Rightarrow> isoformat today)
      in bind_err (parse_euro_amount (dict_get row ''Importe'' ''0'')) (\<lambda>importe_val.
           if flt importe_val (Finite 0)
           then Inr \<lparr>concepto_sug = concepto, fecha_sug = fecha,
                     debe_sug = Finite 0, haber_sug = fabs importe_val\<rparr>
           else Inr \<lparr>concepto_sug = concepto, fecha_sug = fecha,
                     debe_sug = importe_val, haber_sug = Finite 0\<rparr>))"

subsection \<open>The ledger: \<open>core/libro_diario.py\<close> and \<open>core/repositorio.py\<close>\<close>

text \<open>
  A value that \<open>json.loads\<close> returns. An object is the list of its members in order,
  with distinct names.
\<close>

datatype json =
    JNull
  | JBool bool
  | JInt int
  | JFloat pyfloat
  | JStr string
  | JArr "json list"
  | JObj "(string \<times> json) list"

text \<open>
  The class \<open>Entry\<close>. The data class does not check the types of its fields, and
  \<open>deserialize\<close> stores \<open>row["concepto"]\<close> as it is, so the field \<open>concepto\<close> holds any
  value; it is a string in an entry that the command line builds.
\<close>

record entry =
  fecha :: date
  concepto :: json
  debe :: pyfloat
  haber :: pyfloat

text \<open>
  \<open>JsonStorage\<close>. The state of a store is the content of its file, as the value that
  \<open>json.loads\<close> gives for it; \<open>json.loads(json.dumps(data))\<close> is taken to be \<open>data\<close>.
  Failures of the file system and a file that is not JSON are outside the model.
  The constructor writes the empty array when the file does not exist.
\<close>

record storage =
  path :: string
  content :: json

definition json_storage :: "string \<Rightarrow> json option \<Rightarrow> storage" where
  "json_storage p file =
     \<lparr>path = p, content = (case file of None \<Rightarrow> JArr [] | Some c \<Rightarrow> c)\<rparr>"

definition load :: "storage \<Rightarrow> json" where
  "load st = content st"

definition save_all :: "storage \<Rightarrow> json list \<Rightarrow> storage" where
  "save_all st rows = st\<lparr>content := JArr rows\<rparr>"

text \<open>
  Iteration over a value, as \<open>list(x)\<close> and a comprehension do it: the elements of an
  array, the names of an object, the characters of a string.
\<close>

definition py_iter :: "json \<Rightarrow> error + json list" where
  "py_iter x =
     (case x of
        JArr xs \<Rightarrow> Inr xs
      | JObj kvs \<Rightarrow> Inr (map (\<lambda>(k, v). JStr k) kvs)
      | JStr s \<Rightarrow> Inr (map (\<lambda>c. JStr [c]) s)
      | _ \<Rightarrow> Inl TypeError)"

text \<open>\<open>row[k]\<close> for a string \<open>k\<close>.\<close>

definition getitem :: "json \<Rightarrow> string \<Rightarrow> error + json" where
  "getitem row k =
     (case row of
        JObj kvs \<Rightarrow> (case map_of kvs k of None \<Rightarrow> Inl KeyError | Some v \<Rightarrow> Inr v)
      | _ \<Rightarrow> Inl TypeError)"

text \<open>
  \<open>float(x)\<close>. An integer too large for a double raises \<open>OverflowError\<close>: the largest
  one that converts is below \<open>2 ^ 1024 - 2 ^ 970\<close>.
\<close>

definition float_of_json :: "json \<Rightarrow> error + pyfloat" where
  "float_of_json x =
     (case x of
        JFloat f \<Rightarrow> Inr f
      | JInt i \<Rightarrow> if \<bar>i\<bar> < 2 ^ 1024 - 2 ^ 970 then Inr (Finite (of_int i)) else Inl OverflowError
      | JBool b \<Rightarrow> Inr (Finite (if b then 1 else 0))
      | JStr s \<Rightarrow> py_float s
      | _ \<Rightarrow> Inl TypeError)"

text \<open>\<open>date.fromisoformat(x)\<close>, which wants a string.\<close>

definition fromisoformat_json :: "json \<Rightarrow> error + date" where
  "fromisoformat_json x = (case x of JStr s \<Rightarrow> date_fromisoformat s | _ \<Rightarrow> Inl TypeError)"

text \<open>\<open>serialize(e)\<close>; \<open>float\<close> of a float is that float.\<close>

definition serialize :: "entry \<Rightarrow> json" where
  "serialize e =
     JObj [(''fecha'', JStr (isoformat (fecha e))),
           (''concepto'', concepto e),
           (''debe'', JFloat (debe e)),
           (''haber'', JFloat (haber e))]"

text \<open>\<open>deserialize(row)\<close>: the arguments of \<open>Entry\<close> are evaluated from left to right.\<close>

definition deserialize :: "json \<Rightarrow> error + entry" where
  "deserialize row =
     bind_err (getitem row ''fecha'') (\<lambda>f.
     bind_err (fromisoformat_json f) (\<lambda>fe.
     bind_err (getitem row ''concepto'') (\<lambda>co.
     bind_err (getitem row ''debe'') (\<lambda>d.
     bind_err (float_of_json d) (\<lambda>de.
     bind_err (getitem row ''haber'') (\<lambda>h.
     bind_err (float_of_json h) (\<lambda>ha.
       Inr \<lparr>fecha = fe, concepto = co, debe = de, haber = ha\<rparr>)))))))"

text \<open>\<open>add_entry(storage, e)\<close>; the result is the store after the call.\<close>

definition add_entry :: "storage \<Rightarrow> entry \<Rightarrow> error + storage" where
  "add_entry st e =
     bind_err (py_iter (load st)) (\<lambda>rows. Inr (save_all st (rows @ [serialize e])))"

text \<open>
  \<open>[deserialize(r) for r in rows]\<close>: the first row that raises ends the comprehension.
\<close>

fun deserialize_all :: "json list \<Rightarrow> error + entry list" where
  "deserialize_all [] = Inr []"
| "deserialize_all (r # rs) =
     bind_err (deserialize r) (\<lambda>e. bind_err (deserialize_all rs) (\<lambda>es. Inr (e # es)))"

text \<open>\<open>list_entries(storage)\<close>\<close>

definition list_entries :: "storage \<Rightarrow> error + entry list" where
  "list_entries st = bind_err (py_iter (load st)) deserialize_all"

text \<open>The calls \<open>add_entry(s, e1)\<close>, ..., \<open>add_entry(s, en)\<close> one after the other.\<close>

fun add_entries :: "storage \<Rightarrow> entry list \<Rightarrow> error + storage" where
  "add_entries st [] = Inr st"
| "add_entries st (e # es) = bind_err (add_entry st e) (\<lambda>st'. add_entries st' es)"

text \<open>
  A valid entry of section 3 of the specification: a calendar date, a text, and a debit
  and a credit that are numbers not below zero.
\<close>

definition nonneg :: "pyfloat \<Rightarrow> bool" where
  "nonneg x = (case x of Finite q \<Rightarrow> 0 \<le> q | _ \<Rightarrow> False)"

definition is_text :: "json \<Rightarrow> bool" where
  "is_text x = (case x of JStr s \<Rightarrow> True | _ \<Rightarrow> False)"

definition valid_entry :: "entry \<Rightarrow> bool" where
  "valid_entry e =
     (valid_date (fecha e) \<and> is_text (concepto e) \<and> nonneg (debe e) \<and> nonneg (haber e))"

section \<open>Properties\<close>

subsection \<open>The reader loop\<close>

lemma collect_rows_eq:
  "collect_rows headers recs rows =
     rows @ map (\<lambda>r. dict_zip headers (last5 r)) (filter (\<lambda>r. 5 \<le> length r) recs)"
proof (induction recs arbitrary: rows)
  case Nil
  show ?case by simp
next
  case (Cons r rs)
  have len: "length (last5 r) = 5 \<longleftrightarrow> 5 \<le> length r"
    by (auto simp: last5_def)
  show ?case
  proof (cases "5 \<le> length r")
    case True
    then have "r \<noteq> []" by auto
    with True len Cons.IH show ?thesis by (simp add: Let_def)
  next
    case False
    with len Cons.IH show ?thesis by (simp add: Let_def)
  qed
qed

subsection \<open>Dictionaries built from distinct keys\<close>

lemma dict_set_fresh: "k \<notin> fst ` set d \<Longrightarrow> dict_set d k v = d @ [(k, v)]"
  by (induction d) auto

lemma foldl_dict_set_distinct:
  "distinct ks \<Longrightarrow> set ks \<inter> fst ` set d = {} \<Longrightarrow>
   foldl (\<lambda>d (k, v). dict_set d k v) d (zip ks vs) = d @ zip ks vs"
proof (induction ks arbitrary: d vs)
  case Nil
  show ?case by simp
next
  case (Cons k ks)
  show ?case
  proof (cases vs)
    case Nil
    then show ?thesis by simp
  next
    case (Cons v vs')
    from Cons.prems have fresh: "k \<notin> fst ` set d" by auto
    from Cons.prems have "distinct ks" "set ks \<inter> fst ` set (d @ [(k, v)]) = {}" by auto
    then have "foldl (\<lambda>d (k, v). dict_set d k v) (d @ [(k, v)]) (zip ks vs')
        = (d @ [(k, v)]) @ zip ks vs'"
      by (rule Cons.IH)
    with fresh Cons show ?thesis by (simp add: dict_set_fresh)
  qed
qed

lemma dict_zip_distinct: "distinct ks \<Longrightarrow> dict_zip ks vs = zip ks vs"
  using foldl_dict_set_distinct [of ks "[]" vs] by (simp add: dict_zip_def)

lemma length_last5: "length (last5 xs) = min 5 (length xs)"
  by (auto simp: last5_def)

lemma statement_rows_spec:
  assumes "distinct (last5 header)"
  shows "statement_rows header lines = reader_rows_spec header lines"
proof -
  have "(\<lambda>fields::string list. fields \<noteq> [] \<and> length (last5 fields) = 5)
      = (\<lambda>fields. 5 \<le> length fields)"
    by (auto simp: length_last5)
  with assms show ?thesis
    by (simp add: statement_rows_def reader_rows_spec_def dict_zip_distinct)
qed

lemma collect_rows_statement:
  "collect_rows (last5 header) lines [] = statement_rows header lines"
  by (simp add: collect_rows_eq statement_rows_def)

subsection \<open>The rows that the reader returns\<close>

text \<open>
  Claim C6. The reader drops the first line as data and keeps its rightmost five fields
  as column names. Of the lines after it, those with no field and those with fewer than
  five fields are skipped; every other line gives one row, built from its rightmost five
  fields, in file order. When the retained names are distinct the row pairs the names
  with the values position by position, as the specification words it. The number of
  rows is the number of lines with at least five fields, and the output is the same when
  the lines with fewer than five fields are taken out of the file: such a line never
  shows in the output. The header line is assumed to hold a field.
\<close>

theorem iter_bank_csv_rows_rows:
  assumes "header \<noteq> []"
  shows "iter_bank_csv_rows (Some (header # lines)) = Inr (statement_rows header lines)
    \<and> (distinct (last5 header) \<longrightarrow>
         iter_bank_csv_rows (Some (header # lines)) = Inr (reader_rows_spec header lines))
    \<and> length (statement_rows header lines)
         = length (filter (\<lambda>fields. 5 \<le> length fields) lines)
    \<and> iter_bank_csv_rows (Some (header # filter (\<lambda>fields. 5 \<le> length fields) lines))
         = iter_bank_csv_rows (Some (header # lines))"
  using assms
  by (simp add: iter_bank_csv_rows_def collect_rows_statement statement_rows_spec)
    (simp add: statement_rows_def)

theorem iter_bank_csv_rows_rows_witness:
  "[''x'', ''Fecha'', ''Fecha valor'', ''Concepto'', ''Importe'', ''Saldo Posterior''] \<noteq> []
   \<and> iter_bank_csv_rows (Some
        [[''x'', ''Fecha'', ''Fecha valor'', ''Concepto'', ''Importe'', ''Saldo Posterior''],
         [''1'', ''01/09/2025'', ''01/09/2025'', ''Pan'', ''-2,37'', ''100,00''],
         [],
         [''a'', ''b''],
         [''02/09/2025'', ''03/09/2025'', ''Luz'', ''-10,00'', ''90,00'']])
     = Inr
        [[(''Fecha'', ''01/09/2025''), (''Fecha valor'', ''01/09/2025''), (''Concepto'', ''Pan''),
          (''Importe'', ''-2,37''), (''Saldo Posterior'', ''100,00'')],
         [(''Fecha'', ''02/09/2025''), (''Fecha valor'', ''03/09/2025''), (''Concepto'', ''Luz''),
          (''Importe'', ''-10,00''), (''Saldo Posterior'', ''90,00'')]]"
  using iter_bank_csv_rows_rows
    [of "[''x'', ''Fecha'', ''Fecha valor'', ''Concepto'', ''Importe'', ''Saldo Posterior'']"
        "[[''1'', ''01/09/2025'', ''01/09/2025'', ''Pan'', ''-2,37'', ''100,00''],
          [],
          [''a'', ''b''],
          [''02/09/2025'', ''03/09/2025'', ''Luz'', ''-10,00'', ''90,00'']]"]
  by (simp add: statement_rows_def reader_rows_spec_def dict_zip_def last5_def)

subsection \<open>Reading one row by its index\<close>



subsection \<open>The empty file\<close>

text \<open>
  Claim C9, as the specification states it, has both readers raise on an empty file.
  \<open>_iter_bank_csv_rows\<close> does not: its guard \<open>if not header: return rows\<close> returns the
  empty list.
\<close>

theorem iter_empty_file_counterexample:
  "iter_bank_csv_rows (Some []) = Inr []"
  by (simp add: iter_bank_csv_rows_def)

text \<open>
  Claim C9, amended. On an empty file (no header line) \<open>read_row\<close> raises a
  \<open>ValueError\<close> for every index, and \<open>iterate\<close> returns the empty sequence without
  raising.
\<close>

theorem empty_file_readers:
  "read_bank_csv_row (Some []) i = Inl ValueError \<and> iter_bank_csv_rows (Some []) = Inr []"
  by (simp add: read_bank_csv_row_def iter_bank_csv_rows_def)

theorem empty_file_readers_witness:
  "read_bank_csv_row (Some []) 1 = Inl ValueError \<and> iter_bank_csv_rows (Some []) = Inr []"
  using empty_file_readers [of 1] by simp

subsection \<open>The two readers agree\<close>

text \<open>
  Claim C10. For every file and every 1-based index \<open>i\<close> between 1 and \<open>N\<close>, where \<open>N\<close>
  is the length of the sequence that \<open>iterate\<close> returns, \<open>read_row\<close> returns the
  \<open>i\<close>-th element of that sequence.
\<close>

theorem read_row_agrees_with_iterate:
  assumes "iter_bank_csv_rows file = Inr rows" and "1 \<le> i" and "i \<le> int (length rows)"
  shows "read_bank_csv_row file i = Inr (rows ! nat (i - 1))"
  using assms
  by (auto simp: iter_bank_csv_rows_def read_bank_csv_row_def Let_def
      split: option.splits list.splits if_splits)

theorem read_row_agrees_with_iterate_witness:
  "iter_bank_csv_rows (Some [[''k1'', ''k2'', ''k3'', ''k4'', ''k5''],
                             [''a'', ''b'', ''c'', ''d'', ''e''],
                             [''p'', ''q'', ''r'', ''s'', ''t'']])
     = Inr [[(''k1'', ''a''), (''k2'', ''b''), (''k3'', ''c''), (''k4'', ''d''), (''k5'', ''e'')],
            [(''k1'', ''p''), (''k2'', ''q''), (''k3'', ''r''), (''k4'', ''s''), (''k5'', ''t'')]]
   \<and> (1::int) \<le> 2
   \<and> (2::int) \<le> int (length
        [[(''k1'', ''a''), (''k2'', ''b''), (''k3'', ''c''), (''k4'', ''d''), (''k5'', ''e'')],
         [(''k1'', ''p''), (''k2'', ''q''), (''k3'', ''r''), (''k4'', ''s''), (''k5'', ''t'')]])
   \<and> read_bank_csv_row (Some [[''k1'', ''k2'', ''k3'', ''k4'', ''k5''],
                               [''a'', ''b'', ''c'', ''d'', ''e''],
                               [''p'', ''q'', ''r'', ''s'', ''t'']]) 2
     = Inr [(''k1'', ''p''), (''k2'', ''q''), (''k3'', ''r''), (''k4'', ''s''), (''k5'', ''t'')]"
proof -
  have it: "iter_bank_csv_rows (Some [[''k1'', ''k2'', ''k3'', ''k4'', ''k5''],
                             [''a'', ''b'', ''c'', ''d'', ''e''],
                             [''p'', ''q'', ''r'', ''s'', ''t'']])
     = Inr [[(''k1'', ''a''), (''k2'', ''b''), (''k3'', ''c''), (''k4'', ''d''), (''k5'', ''e'')],
            [(''k1'', ''p''), (''k2'', ''q''), (''k3'', ''r''), (''k4'', ''s''), (''k5'', ''t'')]]"
    by (simp add: iter_bank_csv_rows_def last5_def dict_zip_def)
  from read_row_agrees_with_iterate [OF it, of 2] it show ?thesis by simp
qed

subsection \<open>The amount parser\<close>

lemma replace_scan_remove: "replace_scan [c] [] s = filter (\<lambda>x. x \<noteq> c) s"
  by (induction s) auto

lemma replace_scan_subst: "replace_scan [c] [d] s = map (\<lambda>x. if x = c then d else x) s"
  by (induction s) auto

lemma string_to_double_error: "string_to_double s = Inl e \<Longrightarrow> e = ValueError"
  by (auto simp: string_to_double_def split: option.splits if_splits prod.splits)

lemma py_float_error: "py_float s = Inl e \<Longrightarrow> e = ValueError"
  unfolding py_float_def Let_def
  by (auto split: option.splits if_splits dest: string_to_double_error)

lemma parse_euro_amount_eq: "parse_euro_amount s = Inr (amount_rule_spec s)"
proof (cases "py_float (map (\<lambda>c. if c = CHR '','' then CHR ''.'' else c)
                       (filter (\<lambda>c. c \<noteq> CHR ''.'') (strip s)))")
  case (Inl e)
  then have "e = ValueError" by (rule py_float_error)
  with Inl show ?thesis
    by (simp add: parse_euro_amount_def amount_rule_spec_def replace_def
        replace_scan_remove replace_scan_subst)
next
  case (Inr x)
  then show ?thesis
    by (simp add: parse_euro_amount_def amount_rule_spec_def replace_def
        replace_scan_remove replace_scan_subst)
qed

lemmas float_eval =
  strip_def is_space_def replace_def py_float_def transform_decimal_and_space_def
  c_isspace_def string_to_double_def dg_strtod_def read_sign_def is_digit_def
  read_exponent_def nat_of_digits_def digit_val_def pow10_def parse_inf_or_nan_def ci_eq_def

text \<open>
  Claim C3. For every string the amount parser returns, without raising, the value of
  the amount rule: the string stripped of white space, its points removed, its commas
  turned into points, parsed as a number, and \<open>0.0\<close> when the parse fails. The string
  \<open>-2,37\<close> gives \<open>-2.37\<close>, \<open>1.234,56\<close> gives \<open>1234.56\<close> and \<open>abc\<close> gives \<open>0.0\<close>.
\<close>

theorem parse_euro_amount_rule:
  "parse_euro_amount s = Inr (amount_rule_spec s)
   \<and> parse_euro_amount ''-2,37'' = Inr (Finite (- (237 / 100)))
   \<and> parse_euro_amount ''1.234,56'' = Inr (Finite (123456 / 100))
   \<and> parse_euro_amount ''abc'' = Inr (Finite 0)"
proof -
  have "parse_euro_amount ''-2,37'' = Inr (Finite (- (237 / 100)))"
    by (simp add: parse_euro_amount_def float_eval)
  moreover have "parse_euro_amount ''1.234,56'' = Inr (Finite (123456 / 100))"
    by (simp add: parse_euro_amount_def float_eval)
  moreover have "parse_euro_amount ''abc'' = Inr (Finite 0)"
    by (simp add: parse_euro_amount_def float_eval)
  ultimately show ?thesis
    by (simp add: parse_euro_amount_eq)
qed

theorem parse_euro_amount_rule_witness:
  "parse_euro_amount '' 1.000.000,5 '' = Inr (Finite (2000001 / 2))
   \<and> amount_rule_spec '' 1.000.000,5 '' = Finite (2000001 / 2)"
proof -
  have "amount_rule_spec '' 1.000.000,5 '' = Finite (2000001 / 2)"
    by (simp add: amount_rule_spec_def float_eval)
  with parse_euro_amount_rule [of "'' 1.000.000,5 ''"] show ?thesis
    by simp
qed

subsection \<open>The matcher and the texts of an expression\<close>











subsection \<open>The texts of the day, month and year expressions\<close>







subsection \<open>The matches of the date format\<close>






lemma days_in_month_le: "days_in_month y m \<le> 31"
  by (simp add: days_in_month_def)

subsection \<open>The date parser\<close>










subsection \<open>Decimal numerals\<close>

declare str_nat.simps [simp del]

lemma lt10_cases: "(d::nat) < 10 \<Longrightarrow> d \<in> {0, 1, 2, 3, 4, 5, 6, 7, 8, 9}"
  by auto

lemma digit_char_props:
  assumes "d < 10"
  shows "digit_val (digit_char d) = d" and "is_digit (digit_char d)"
  using lt10_cases [OF assms] by (auto simp: digit_val_def digit_char_def is_digit_def)

lemma nat_of_digits_snoc: "nat_of_digits (s @ [c]) = 10 * nat_of_digits s + digit_val c"
  by (simp add: nat_of_digits_def)

lemma nat_of_digits_str_nat: "nat_of_digits (str_nat n) = n"
proof (induction n rule: str_nat.induct)
  case (1 n)
  show ?case
  proof (cases "n < 10")
    case True
    then show ?thesis
      by (subst str_nat.simps) (simp add: nat_of_digits_def digit_char_props)
  next
    case False
    with "1.IH" have "nat_of_digits (str_nat (n div 10)) = n div 10" by simp
    with False show ?thesis
      by (subst str_nat.simps) (simp add: nat_of_digits_snoc digit_char_props)
  qed
qed

lemma digits_str_nat: "list_all is_digit (str_nat n)"
proof (induction n rule: str_nat.induct)
  case (1 n)
  show ?case
  proof (cases "n < 10")
    case True
    then show ?thesis
      by (subst str_nat.simps) (simp add: digit_char_props)
  next
    case False
    with "1.IH" have "list_all is_digit (str_nat (n div 10))" by simp
    with False show ?thesis
      by (subst str_nat.simps) (simp add: digit_char_props)
  qed
qed

lemma length_str_nat: "n < 10 ^ Suc w \<Longrightarrow> length (str_nat n) \<le> Suc w"
proof (induction w arbitrary: n)
  case 0
  then show ?case by (subst str_nat.simps) simp
next
  case (Suc w)
  show ?case
  proof (cases "n < 10")
    case True
    then show ?thesis by (subst str_nat.simps) simp
  next
    case False
    from Suc.prems have "n div 10 < 10 ^ Suc w" by simp
    then have "length (str_nat (n div 10)) \<le> Suc w" by (rule Suc.IH)
    with False show ?thesis by (subst str_nat.simps) simp
  qed
qed

lemma nat_of_digits_zeros: "nat_of_digits (replicate k (CHR ''0'') @ s) = nat_of_digits s"
  by (induction k) (simp_all add: nat_of_digits_def digit_val_def)

lemma nat_of_digits_zfill: "nat_of_digits (zfill w n) = n"
  by (simp add: zfill_def nat_of_digits_zeros nat_of_digits_str_nat)

lemma digits_zfill: "list_all is_digit (zfill w n)"
  using digits_str_nat [of n] by (auto simp: zfill_def list_all_iff is_digit_def)

lemma length_zfill: "n < 10 ^ Suc w \<Longrightarrow> length (zfill (Suc w) n) = Suc w"
  using length_str_nat [of n w] by (simp add: zfill_def)






subsection \<open>The month filter\<close>







lemma length_zfill4: "n \<le> 9999 \<Longrightarrow> length (zfill 4 n) = 4"
  using length_zfill [of n 3] by simp

lemma length_zfill2: "n \<le> 99 \<Longrightarrow> length (zfill 2 n) = 2"
  using length_zfill [of n 1] by (simp add: numeral_2_eq_2)






lemma fsum_Finite: "fsum (map Finite qs) = Finite (sum_list qs)"
proof -
  have "foldl fadd (Finite a) (map Finite qs) = Finite (a + sum_list qs)" for a
    by (induction qs arbitrary: a) (simp_all add: add.assoc)
  from this [of 0] show ?thesis by (simp add: fsum_def)
qed



subsection \<open>The suggested debit and credit\<close>

lemma bank_add_suggest_eq:
  "bank_add_suggest row fecha_col today =
     Inr \<lparr>concepto_sug = strip (dict_get row ''Concepto'' ''''),
          fecha_sug = (case parse_ddmmyyyy (strip (dict_get row fecha_col '''')) of
                         Inr d \<Rightarrow> isoformat d | Inl e \<Rightarrow> isoformat today),
          debe_sug = (if flt (amount_rule_spec (dict_get row ''Importe'' ''0'')) (Finite 0)
                      then Finite 0 else amount_rule_spec (dict_get row ''Importe'' ''0'')),
          haber_sug = (if flt (amount_rule_spec (dict_get row ''Importe'' ''0'')) (Finite 0)
                       then fabs (amount_rule_spec (dict_get row ''Importe'' ''0''))
                       else Finite 0)\<rparr>"
  by (simp add: bank_add_suggest_def parse_euro_amount_eq bind_err_def Let_def)

text \<open>
  Claim C8. For every row the adapter's suggestion reads \<open>Importe\<close> by the amount rule
  (the text \<open>0\<close> when the column is missing). When the value is below zero it suggests a
  debit of zero and a credit of the absolute value; otherwise a debit of the value and a
  credit of zero. So \<open>-10,00\<close> gives debit 0.0 and credit 10.0, and \<open>10,00\<close> gives debit
  10.0 and credit 0.0.
\<close>

theorem bank_add_sign_convention:
  "(\<exists>sg. bank_add_suggest row fecha_col today = Inr sg
      \<and> (flt (amount_rule_spec (dict_get row ''Importe'' ''0'')) (Finite 0) \<longrightarrow>
           debe_sug sg = Finite 0
           \<and> haber_sug sg = fabs (amount_rule_spec (dict_get row ''Importe'' ''0'')))
      \<and> (\<not> flt (amount_rule_spec (dict_get row ''Importe'' ''0'')) (Finite 0) \<longrightarrow>
           debe_sug sg = amount_rule_spec (dict_get row ''Importe'' ''0'')
           \<and> haber_sug sg = Finite 0))
   \<and> (\<exists>sg. bank_add_suggest [(''Importe'', ''-10,00'')] fecha_col today = Inr sg
         \<and> debe_sug sg = Finite 0 \<and> haber_sug sg = Finite 10)
   \<and> (\<exists>sg. bank_add_suggest [(''Importe'', ''10,00'')] fecha_col today = Inr sg
         \<and> debe_sug sg = Finite 10 \<and> haber_sug sg = Finite 0)"
proof -
  have "amount_rule_spec ''-10,00'' = Finite (- 10)"
    by (simp add: amount_rule_spec_def float_eval)
  moreover have "amount_rule_spec ''10,00'' = Finite 10"
    by (simp add: amount_rule_spec_def float_eval)
  ultimately show ?thesis
    by (simp add: bank_add_suggest_eq fabs_def dict_get_def)
qed

theorem bank_add_sign_convention_witness:
  "(\<exists>sg. bank_add_suggest
            [(''Fecha'', ''01/09/2025''), (''Fecha valor'', ''02/09/2025''), (''Concepto'', '' Luz ''),
             (''Importe'', ''-2,37''), (''Saldo Posterior'', ''90,00'')]
            ''Fecha'' \<lparr>year = 2026, month = 11, day = 4\<rparr> = Inr sg
         \<and> debe_sug sg = Finite 0 \<and> haber_sug sg = Finite (237 / 100))
   \<and> (\<exists>sg. bank_add_suggest
            [(''Fecha'', ''15/09/2025''), (''Fecha valor'', ''16/09/2025''), (''Concepto'', ''Nomina''),
             (''Importe'', ''1.234,56''), (''Saldo Posterior'', ''1.334,56'')]
            ''Fecha valor'' \<lparr>year = 2026, month = 11, day = 4\<rparr> = Inr sg
         \<and> debe_sug sg = Finite (123456 / 100) \<and> haber_sug sg = Finite 0)"
proof -
  have a: "amount_rule_spec ''-2,37'' = Finite (- (237 / 100))"
    by (simp add: amount_rule_spec_def float_eval)
  have g: "dict_get [(''Fecha'', ''01/09/2025''), (''Fecha valor'', ''02/09/2025''),
      (''Concepto'', '' Luz ''), (''Importe'', ''-2,37''), (''Saldo Posterior'', ''90,00'')]
      ''Importe'' ''0'' = ''-2,37''"
    by (simp add: dict_get_def)
  have neg: "flt (Finite (- (237 / 100))) (Finite 0)" by simp
  have a': "amount_rule_spec ''1.234,56'' = Finite (123456 / 100)"
    by (simp add: amount_rule_spec_def float_eval)
  have g': "dict_get [(''Fecha'', ''15/09/2025''), (''Fecha valor'', ''16/09/2025''),
      (''Concepto'', ''Nomina''), (''Importe'', ''1.234,56''), (''Saldo Posterior'', ''1.334,56'')]
      ''Importe'' ''0'' = ''1.234,56''"
    by (simp add: dict_get_def)
  have pos: "\<not> flt (Finite (123456 / 100)) (Finite 0)" by simp
  have 1: "\<exists>sg. bank_add_suggest
            [(''Fecha'', ''01/09/2025''), (''Fecha valor'', ''02/09/2025''), (''Concepto'', '' Luz ''),
             (''Importe'', ''-2,37''), (''Saldo Posterior'', ''90,00'')]
            ''Fecha'' \<lparr>year = 2026, month = 11, day = 4\<rparr> = Inr sg
         \<and> debe_sug sg = Finite 0 \<and> haber_sug sg = Finite (237 / 100)"
    using neg bank_add_sign_convention
      [of "[(''Fecha'', ''01/09/2025''), (''Fecha valor'', ''02/09/2025''), (''Concepto'', '' Luz ''),
            (''Importe'', ''-2,37''), (''Saldo Posterior'', ''90,00'')]"
          "''Fecha''" "\<lparr>year = 2026, month = 11, day = 4\<rparr>"]
    unfolding g a by (auto simp: fabs_def)
  have 2: "\<exists>sg. bank_add_suggest
            [(''Fecha'', ''15/09/2025''), (''Fecha valor'', ''16/09/2025''), (''Concepto'', ''Nomina''),
             (''Importe'', ''1.234,56''), (''Saldo Posterior'', ''1.334,56'')]
            ''Fecha valor'' \<lparr>year = 2026, month = 11, day = 4\<rparr> = Inr sg
         \<and> debe_sug sg = Finite (123456 / 100) \<and> haber_sug sg = Finite 0"
    using pos bank_add_sign_convention
      [of "[(''Fecha'', ''15/09/2025''), (''Fecha valor'', ''16/09/2025''), (''Concepto'', ''Nomina''),
            (''Importe'', ''1.234,56''), (''Saldo Posterior'', ''1.334,56'')]"
          "''Fecha valor''" "\<lparr>year = 2026, month = 11, day = 4\<rparr>"]
    unfolding g' a' by auto
  from 1 2 show ?thesis by (rule conjI)
qed

subsection \<open>Serialising an entry\<close>

lemmas entry_eval =
  valid_entry_def valid_date_def valid_ymd_def days_in_month_def is_leap_def is_text_def
  nonneg_def

lemma iso_text_parts:
  assumes "length a = 4" and "length b = 2" and "length c = 2"
  shows "length (a @ ''-'' @ b @ ''-'' @ c) = 10"
    and "take 4 (a @ ''-'' @ b @ ''-'' @ c) = a"
    and "(a @ ''-'' @ b @ ''-'' @ c) ! 4 = CHR ''-''"
    and "take 2 (drop 5 (a @ ''-'' @ b @ ''-'' @ c)) = b"
    and "(a @ ''-'' @ b @ ''-'' @ c) ! 7 = CHR ''-''"
    and "drop 8 (a @ ''-'' @ b @ ''-'' @ c) = c"
proof -
  from assms(1) obtain a1 a2 a3 a4 where a: "a = [a1, a2, a3, a4]"
    by (auto simp: length_Suc_conv numeral_eq_Suc)
  from assms(2) obtain b1 b2 where b: "b = [b1, b2]"
    by (auto simp: length_Suc_conv numeral_eq_Suc)
  from assms(3) obtain c1 c2 where c: "c = [c1, c2]"
    by (auto simp: length_Suc_conv numeral_eq_Suc)
  show "length (a @ ''-'' @ b @ ''-'' @ c) = 10"
    and "take 4 (a @ ''-'' @ b @ ''-'' @ c) = a"
    and "(a @ ''-'' @ b @ ''-'' @ c) ! 4 = CHR ''-''"
    and "take 2 (drop 5 (a @ ''-'' @ b @ ''-'' @ c)) = b"
    and "(a @ ''-'' @ b @ ''-'' @ c) ! 7 = CHR ''-''"
    and "drop 8 (a @ ''-'' @ b @ ''-'' @ c) = c"
    by (simp_all add: a b c)
qed

lemma fromisoformat_isoformat:
  assumes "valid_date d"
  shows "date_fromisoformat (isoformat d) = Inr d"
proof -
  from assms have v: "valid_ymd (year d) (month d) (day d)" by (simp add: valid_date_def)
  have "day d \<le> 31"
    using v days_in_month_le [of "year d" "month d"] by (simp add: valid_ymd_def)
  with v have l: "length (zfill 4 (year d)) = 4" "length (zfill 2 (month d)) = 2"
      "length (zfill 2 (day d)) = 2"
    by (simp_all add: valid_ymd_def length_zfill4 length_zfill2)
  note p = iso_text_parts [OF l]
  show ?thesis
    unfolding date_fromisoformat_def isoformat_def p
    using v by (simp add: digits_zfill nat_of_digits_zfill new_date_def)
qed

lemma deserialize_serialize:
  assumes "valid_date (fecha e)"
  shows "deserialize (serialize e) = Inr e"
  using fromisoformat_isoformat [OF assms]
  by (simp add: deserialize_def serialize_def getitem_def bind_err_def fromisoformat_json_def
      float_of_json_def)

text \<open>
  Claim C2. For every valid entry \<open>e\<close> (a calendar date, a text, a debit and a credit
  not below zero), \<open>deserialize(serialize(e))\<close> returns \<open>e\<close>.
\<close>

theorem serialize_roundtrip:
  assumes "valid_entry e"
  shows "deserialize (serialize e) = Inr e"
  using assms by (simp add: valid_entry_def deserialize_serialize)

theorem serialize_roundtrip_witness:
  "valid_entry \<lparr>fecha = \<lparr>year = 2025, month = 9, day = 4\<rparr>, concepto = JStr ''Pan'',
                 debe = Finite 0, haber = Finite (237 / 100)\<rparr>
   \<and> serialize \<lparr>fecha = \<lparr>year = 2025, month = 9, day = 4\<rparr>, concepto = JStr ''Pan'',
                 debe = Finite 0, haber = Finite (237 / 100)\<rparr>
     = JObj [(''fecha'', JStr ''2025-09-04''), (''concepto'', JStr ''Pan''),
             (''debe'', JFloat (Finite 0)), (''haber'', JFloat (Finite (237 / 100)))]
   \<and> deserialize (JObj [(''fecha'', JStr ''2025-09-04''), (''concepto'', JStr ''Pan''),
             (''debe'', JFloat (Finite 0)), (''haber'', JFloat (Finite (237 / 100)))])
     = Inr \<lparr>fecha = \<lparr>year = 2025, month = 9, day = 4\<rparr>, concepto = JStr ''Pan'',
             debe = Finite 0, haber = Finite (237 / 100)\<rparr>"
proof -
  let ?e = "\<lparr>fecha = \<lparr>year = 2025, month = 9, day = 4\<rparr>, concepto = JStr ''Pan'',
             debe = Finite 0, haber = Finite (237 / 100)\<rparr>"
  have v: "valid_entry ?e" by (simp add: entry_eval)
  have s: "serialize ?e
     = JObj [(''fecha'', JStr ''2025-09-04''), (''concepto'', JStr ''Pan''),
             (''debe'', JFloat (Finite 0)), (''haber'', JFloat (Finite (237 / 100)))]"
    by (simp add: serialize_def isoformat_def zfill_def str_nat.simps digit_char_def)
  from serialize_roundtrip [OF v] v s show ?thesis by simp
qed

subsection \<open>Adding entries and listing them\<close>

lemma deserialize_all_append:
  "deserialize_all (xs @ ys) =
     bind_err (deserialize_all xs) (\<lambda>a. bind_err (deserialize_all ys) (\<lambda>b. Inr (a @ b)))"
  by (induction xs) (auto simp: bind_err_def split: sum.splits)

lemma add_entry_listing:
  assumes "list_entries st = Inr old" and "valid_entry e"
  shows "\<exists>st'. add_entry st e = Inr st' \<and> list_entries st' = Inr (old @ [e])"
proof -
  from assms(1) obtain rows where rows: "py_iter (load st) = Inr rows"
    and old: "deserialize_all rows = Inr old"
    by (auto simp: list_entries_def bind_err_def split: sum.splits)
  from assms(2) have "deserialize (serialize e) = Inr e"
    by (simp add: valid_entry_def deserialize_serialize)
  with old have "deserialize_all (rows @ [serialize e]) = Inr (old @ [e])"
    by (simp add: deserialize_all_append bind_err_def)
  with rows show ?thesis
    by (simp add: add_entry_def list_entries_def bind_err_def save_all_def load_def py_iter_def)
qed

lemma add_entries_listing:
  assumes "list_all valid_entry es" and "list_entries st = Inr old"
  shows "\<exists>st'. add_entries st es = Inr st' \<and> list_entries st' = Inr (old @ es)"
  using assms
proof (induction es arbitrary: st old)
  case Nil
  then show ?case by simp
next
  case (Cons e es)
  from Cons.prems have e: "valid_entry e" and es: "list_all valid_entry es" by simp_all
  from add_entry_listing [OF Cons.prems(2) e] obtain st1
    where st1: "add_entry st e = Inr st1" "list_entries st1 = Inr (old @ [e])" by blast
  from Cons.IH [OF es st1(2)] obtain st'
    where "add_entries st1 es = Inr st'" "list_entries st' = Inr ((old @ [e]) @ es)" by blast
  with st1 show ?case by (simp add: bind_err_def)
qed

lemma list_entries_fresh: "list_entries (json_storage p None) = Inr []"
  by (simp add: list_entries_def json_storage_def load_def py_iter_def bind_err_def)

text \<open>
  Claim C1, as the specification states it, holds for every store. A store that already
  holds an entry lists that entry too: \<open>add_entry\<close> appends to what the file holds.
\<close>

theorem add_entry_existing_counterexample:
  "bind_err
     (add_entries
        \<lparr>path = ''data/libro_diario.json'',
         content = JArr [JObj [(''fecha'', JStr ''2025-09-01''), (''concepto'', JStr ''Pan''),
                               (''debe'', JFloat (Finite 0)),
                               (''haber'', JFloat (Finite (237 / 100)))]]\<rparr>
        [\<lparr>fecha = \<lparr>year = 2025, month = 9, day = 15\<rparr>, concepto = JStr ''Nomina'',
          debe = Finite 1200, haber = Finite 0\<rparr>])
     list_entries
   = Inr [\<lparr>fecha = \<lparr>year = 2025, month = 9, day = 1\<rparr>, concepto = JStr ''Pan'',
           debe = Finite 0, haber = Finite (237 / 100)\<rparr>,
          \<lparr>fecha = \<lparr>year = 2025, month = 9, day = 15\<rparr>, concepto = JStr ''Nomina'',
           debe = Finite 1200, haber = Finite 0\<rparr>]
   \<and> bind_err
     (add_entries
        \<lparr>path = ''data/libro_diario.json'',
         content = JArr [JObj [(''fecha'', JStr ''2025-09-01''), (''concepto'', JStr ''Pan''),
                               (''debe'', JFloat (Finite 0)),
                               (''haber'', JFloat (Finite (237 / 100)))]]\<rparr>
        [\<lparr>fecha = \<lparr>year = 2025, month = 9, day = 15\<rparr>, concepto = JStr ''Nomina'',
          debe = Finite 1200, haber = Finite 0\<rparr>])
     list_entries
   \<noteq> Inr [\<lparr>fecha = \<lparr>year = 2025, month = 9, day = 15\<rparr>, concepto = JStr ''Nomina'',
           debe = Finite 1200, haber = Finite 0\<rparr>]"
proof -
  let ?st = "\<lparr>path = ''data/libro_diario.json'',
         content = JArr [JObj [(''fecha'', JStr ''2025-09-01''), (''concepto'', JStr ''Pan''),
                               (''debe'', JFloat (Finite 0)),
                               (''haber'', JFloat (Finite (237 / 100)))]]\<rparr>"
  let ?e0 = "\<lparr>fecha = \<lparr>year = 2025, month = 9, day = 1\<rparr>, concepto = JStr ''Pan'',
           debe = Finite 0, haber = Finite (237 / 100)\<rparr>"
  let ?e1 = "\<lparr>fecha = \<lparr>year = 2025, month = 9, day = 15\<rparr>, concepto = JStr ''Nomina'',
           debe = Finite 1200, haber = Finite 0\<rparr>"
  have d: "date_fromisoformat ''2025-09-01'' = Inr \<lparr>year = 2025, month = 9, day = 1\<rparr>"
    by (simp add: date_fromisoformat_def is_digit_def nat_of_digits_def digit_val_def
        new_date_def valid_ymd_def days_in_month_def)
  have old: "list_entries ?st = Inr [?e0]"
    by (simp add: list_entries_def load_def py_iter_def bind_err_def deserialize_def
        getitem_def fromisoformat_json_def float_of_json_def d)
  have v: "list_all valid_entry [?e1]" by (simp add: entry_eval)
  from add_entries_listing [OF v old] obtain st'
    where "add_entries ?st [?e1] = Inr st'" and "list_entries st' = Inr ([?e0] @ [?e1])"
    by blast
  then have "bind_err (add_entries ?st [?e1]) list_entries = Inr [?e0, ?e1]"
    by (simp add: bind_err_def)
  then show ?thesis by simp
qed

text \<open>
  Claim C1, amended. For every store whose entries list as \<open>old\<close> and every sequence
  \<open>e1, ..., en\<close> of valid entries, the calls \<open>add_entry(s, e1)\<close>, ..., \<open>add_entry(s, en)\<close>
  succeed and \<open>list_entries(s)\<close> then returns the entries of \<open>old\<close> followed by
  \<open>e1, ..., en\<close>, in that order. For a store created on a file that did not exist it
  returns exactly \<open>e1, ..., en\<close>.
\<close>

theorem add_entries_then_list:
  assumes "list_all valid_entry es"
  shows "(list_entries st = Inr old \<longrightarrow>
            (\<exists>st'. add_entries st es = Inr st' \<and> list_entries st' = Inr (old @ es)))
     \<and> (\<exists>st'. add_entries (json_storage p None) es = Inr st' \<and> list_entries st' = Inr es)"
  using add_entries_listing [OF assms, of st old]
    add_entries_listing [OF assms list_entries_fresh, of p]
  by simp

theorem add_entries_then_list_witness:
  "list_all valid_entry
      [\<lparr>fecha = \<lparr>year = 2025, month = 9, day = 1\<rparr>, concepto = JStr ''Pan'',
        debe = Finite 0, haber = Finite (237 / 100)\<rparr>,
       \<lparr>fecha = \<lparr>year = 2025, month = 9, day = 15\<rparr>, concepto = JStr ''Nomina'',
        debe = Finite 1200, haber = Finite 0\<rparr>]
   \<and> bind_err
        (add_entries (json_storage ''data/libro_diario.json'' None)
           [\<lparr>fecha = \<lparr>year = 2025, month = 9, day = 1\<rparr>, concepto = JStr ''Pan'',
             debe = Finite 0, haber = Finite (237 / 100)\<rparr>,
            \<lparr>fecha = \<lparr>year = 2025, month = 9, day = 15\<rparr>, concepto = JStr ''Nomina'',
             debe = Finite 1200, haber = Finite 0\<rparr>])
        list_entries
     = Inr [\<lparr>fecha = \<lparr>year = 2025, month = 9, day = 1\<rparr>, concepto = JStr ''Pan'',
             debe = Finite 0, haber = Finite (237 / 100)\<rparr>,
            \<lparr>fecha = \<lparr>year = 2025, month = 9, day = 15\<rparr>, concepto = JStr ''Nomina'',
             debe = Finite 1200, haber = Finite 0\<rparr>]"
proof -
  let ?es = "[\<lparr>fecha = \<lparr>year = 2025, month = 9, day = 1\<rparr>, concepto = JStr ''Pan'',
        debe = Finite 0, haber = Finite (237 / 100)\<rparr>,
       \<lparr>fecha = \<lparr>year = 2025, month = 9, day = 15\<rparr>, concepto = JStr ''Nomina'',
        debe = Finite 1200, haber = Finite 0\<rparr>]"
  have v: "list_all valid_entry ?es" by (simp add: entry_eval)
  from add_entries_then_list [OF v, of "json_storage ''data/libro_diario.json'' None" "[]"
      "''data/libro_diario.json''"]
  obtain st' where "add_entries (json_storage ''data/libro_diario.json'' None) ?es = Inr st'"
    and "list_entries st' = Inr ?es"
    by blast
  then have "bind_err (add_entries (json_storage ''data/libro_diario.json'' None) ?es)
      list_entries = Inr ?es"
    by (simp add: bind_err_def)
  with v show ?thesis by simp
qed

end
